theory Spec2Isabelle
  imports Main "HOL-Library.Word"
begin

section \<open>Data model\<close>

text \<open>
  The development embeds \<^verbatim>\<open>backend/controllers/taskController.js\<close> together with the
  Mongoose schemas \<^verbatim>\<open>models/Task.js\<close> and \<^verbatim>\<open>models/Agent.js\<close>.

  A JavaScript string is a sequence of UTF-16 code units. Object ids are the 12-byte
  Mongo ObjectIds; only their equality matters here, so they are natural numbers.
  Timestamps are milliseconds, read from a clock that every operation receives as
  its argument \<open>now\<close>.
\<close>

type_synonym jsstring = "16 word list"
type_synonym oid = nat
type_synonym time = nat

definition js :: "string \<Rightarrow> jsstring" where
  "js s = map (\<lambda>c. of_nat (of_char c)) s"

text \<open>\<^verbatim>\<open>agentSchema\<close>: name, email, password, phone, role (default \<^verbatim>\<open>'agent'\<close>).\<close>

record agent =
  agent_id :: oid
  name :: jsstring
  email :: jsstring
  password :: jsstring
  agent_phone :: jsstring
  agent_role :: string

text \<open>
  \<^verbatim>\<open>taskSchema\<close> with \<^verbatim>\<open>timestamps: true\<close>. The two worker references \<open>agentId\<close> and
  \<open>assignedTo\<close> are optional ObjectIds.
\<close>

record task =
  task_id :: oid
  firstName :: jsstring
  phone :: jsstring
  task_notes :: jsstring
  agentId :: "oid option"
  assignedTo :: "oid option"
  status :: string
  isFinalized :: bool
  createdAt :: time
  updatedAt :: time

text \<open>The two collections of the database, each in its natural order.\<close>

record db =
  agents :: "agent list"
  tasks :: "task list"

text \<open>The elements pushed on \<^verbatim>\<open>results\<close> by the row handlers of \<^verbatim>\<open>draftUpload\<close>.\<close>

record candidate =
  cand_firstName :: jsstring
  cand_phone :: jsstring
  cand_notes :: jsstring

text \<open>The object \<^verbatim>\<open>{ id, name, email }\<close> stored under \<^verbatim>\<open>draftAssignedTo\<close>.\<close>

record summary =
  sum_id :: oid
  sum_name :: jsstring
  sum_email :: jsstring

text \<open>
  One element of \<^verbatim>\<open>draft\<close>: the candidate spread with \<^verbatim>\<open>...task\<close>, followed by the
  three assignment fields.
\<close>

record draft_task = candidate +
  draft_agentId :: oid
  draft_assignedTo :: oid
  draftAssignedTo :: summary

text \<open>
  The responses of the controller. Each constructor is one shape of
  \<^verbatim>\<open>res.status(code).json(body)\<close>:
  \<^item> \<open>Message code m\<close> is \<^verbatim>\<open>{ message: m }\<close>;
  \<^item> \<open>ServerError\<close> is status 500 with \<^verbatim>\<open>{ message: 'Server error', error }\<close>, sent by the
    \<^verbatim>\<open>catch\<close> blocks;
  \<^item> \<open>DraftOk total draft\<close> is status 200 with \<^verbatim>\<open>{ total, draft }\<close>;
  \<^item> \<open>TasksSaved count\<close> is status 201 with
    \<^verbatim>\<open>{ message: 'Tasks saved successfully', count }\<close>;
  \<^item> \<open>TaskOk m t\<close> is status 200 with \<^verbatim>\<open>{ message: m, task: t }\<close>.
\<close>

datatype response =
    Message nat string
  | ServerError
  | DraftOk nat "draft_task list"
  | TasksSaved nat
  | TaskOk string task

text \<open>The number a response body reports: \<^verbatim>\<open>total\<close> or \<^verbatim>\<open>count\<close>, when it has one.\<close>

fun reported_count :: "response \<Rightarrow> nat option" where
  "reported_count (DraftOk n draft) = Some n"
| "reported_count (TasksSaved n) = Some n"
| "reported_count _ = None"

section \<open>Record parser\<close>

text \<open>
  \<^verbatim>\<open>String.prototype.trim\<close> removes the ECMAScript WhiteSpace and LineTerminator code
  units from both ends.
\<close>

definition is_ws :: "16 word \<Rightarrow> bool" where
  "is_ws c \<longleftrightarrow>
     c = 0x0009 \<or> c = 0x000A \<or> c = 0x000B \<or> c = 0x000C \<or> c = 0x000D \<or> c = 0x0020 \<or>
     c = 0x00A0 \<or> c = 0x1680 \<or> (0x2000 \<le> c \<and> c \<le> 0x200A) \<or> c = 0x2028 \<or>
     c = 0x2029 \<or> c = 0x202F \<or> c = 0x205F \<or> c = 0x3000 \<or> c = 0xFEFF"

definition trim :: "jsstring \<Rightarrow> jsstring" where
  "trim s = rev (dropWhile is_ws (rev (dropWhile is_ws s)))"

text \<open>
  A row of the CSV parser is an object from header names to strings. A row of
  \<^verbatim>\<open>xlsx.utils.sheet_to_json\<close> maps header names to cell values: strings, numbers and
  booleans. A number is a double; the model covers the integers \<open>n\<close> with
  \<open>-2\<^sup>5\<^sup>3 \<le> n < 2\<^sup>5\<^sup>3\<close>, each of which is a double and is printed by \<^verbatim>\<open>String(n)\<close> as
  its decimal numeral. They are the values of a signed 54-bit word. Fractions and
  larger numbers are not part of the model. Header names are only ever compared with
  the three literals \<^verbatim>\<open>FirstName\<close>, \<^verbatim>\<open>Phone\<close> and \<^verbatim>\<open>Notes\<close>.
\<close>

datatype cell = XStr jsstring | XNum "54 word" | XBool bool

type_synonym csv_row = "string \<rightharpoonup> jsstring"
type_synonym xlsx_row = "string \<rightharpoonup> cell"

fun digits :: "nat \<Rightarrow> jsstring" where
  "digits n = (if n < 10 then [of_nat (48 + n)] else digits (n div 10) @ [of_nat (48 + n mod 10)])"

declare digits.simps [simp del]

text \<open>\<^verbatim>\<open>String(v)\<close> on a cell value; \<open>sint\<close> reads the word as the integer it stands for.\<close>

fun String :: "cell \<Rightarrow> jsstring" where
  "String (XStr s) = s"
| "String (XNum n) =
     (if sint n < 0 then js ''-'' @ digits (nat (- sint n)) else digits (nat (sint n)))"
| "String (XBool b) = (if b then js ''true'' else js ''false'')"

text \<open>
  JavaScript truthiness of a destructured property: \<^verbatim>\<open>undefined\<close>, the empty string,
  \<open>0\<close> and \<^verbatim>\<open>false\<close> are falsy.
\<close>

fun truthy_cell :: "cell option \<Rightarrow> bool" where
  "truthy_cell None = False"
| "truthy_cell (Some (XStr s)) = (s \<noteq> [])"
| "truthy_cell (Some (XNum n)) = (n \<noteq> 0)"
| "truthy_cell (Some (XBool b)) = b"

fun truthy_str :: "jsstring option \<Rightarrow> bool" where
  "truthy_str None = False"
| "truthy_str (Some s) = (s \<noteq> [])"

text \<open>
  The \<^verbatim>\<open>jsonData.forEach\<close> loop of the spreadsheet branch: a row is pushed when
  \<^verbatim>\<open>FirstName && Phone\<close> is truthy, and the pushed values are trimmed afterwards.
\<close>

fun xlsx_results :: "xlsx_row list \<Rightarrow> candidate list" where
  "xlsx_results [] = []"
| "xlsx_results (row # rows) =
     (if truthy_cell (row ''FirstName'') \<and> truthy_cell (row ''Phone'')
      then \<lparr> cand_firstName = trim (String (the (row ''FirstName''))),
             cand_phone = trim (String (the (row ''Phone''))),
             cand_notes = (if truthy_cell (row ''Notes'')
                           then trim (String (the (row ''Notes''))) else []) \<rparr>
           # xlsx_results rows
      else xlsx_results rows)"

text \<open>
  The \<^verbatim>\<open>'data'\<close> handler of the CSV branch, run over the rows in stream order.
  \<^verbatim>\<open>Notes?.trim() || ''\<close> is the trimmed note, or the empty string when the column
  is absent.
\<close>

fun csv_results :: "csv_row list \<Rightarrow> candidate list" where
  "csv_results [] = []"
| "csv_results (data # rest) =
     (if truthy_str (data ''FirstName'') \<and> truthy_str (data ''Phone'')
      then \<lparr> cand_firstName = trim (the (data ''FirstName'')),
             cand_phone = trim (the (data ''Phone'')),
             cand_notes = (case data ''Notes'' of None \<Rightarrow> [] | Some n \<Rightarrow> trim n) \<rparr>
           # csv_results rest
      else csv_results rest)"

section \<open>Distribution and draft\<close>

text \<open>
  The callback of \<^verbatim>\<open>results.map((task, index) => ...)\<close>, identical in both branches:
  the agent is \<^verbatim>\<open>agents[index % agents.length]\<close>.
\<close>

definition assign_agent :: "agent list \<Rightarrow> nat \<Rightarrow> candidate \<Rightarrow> draft_task" where
  "assign_agent ags index t =
     (let a = ags ! (index mod length ags)
      in candidate.extend t
           \<lparr> draft_agentId = agent_id a,
             draft_assignedTo = agent_id a,
             draftAssignedTo = \<lparr> sum_id = agent_id a, sum_name = name a, sum_email = email a \<rparr> \<rparr>)"

definition make_draft :: "agent list \<Rightarrow> candidate list \<Rightarrow> draft_task list" where
  "make_draft ags results = map (\<lambda>(index, t). assign_agent ags index t) (enumerate 0 results)"

text \<open>
  The CSV branch answers from the \<^verbatim>\<open>'end'\<close> handler of the stream, after every row
  has gone through the \<^verbatim>\<open>'data'\<close> handler; the model runs the two in sequence.

  The uploaded file as multer hands it over. Decoding the bytes is the work of the
  libraries \<^verbatim>\<open>xlsx\<close> and \<^verbatim>\<open>csv-parser\<close>, which \<open>draftUpload\<close> takes as parameters:
  \<open>xlsx_read\<close> gives the rows of the first sheet, or \<open>None\<close> when \<^verbatim>\<open>xlsx.read\<close>
  throws; \<open>csv_read\<close> gives the rows the stream emits.
\<close>

record upload =
  mimetype :: string
  buffer :: "8 word list"

definition draftUpload ::
  "(8 word list \<Rightarrow> xlsx_row list option) \<Rightarrow> (8 word list \<Rightarrow> csv_row list) \<Rightarrow>
   upload option \<Rightarrow> db \<Rightarrow> response" where
  "draftUpload xlsx_read csv_read file d =
     (case file of
        None \<Rightarrow> Message 400 ''No file uploaded''
      | Some f \<Rightarrow>
          if agents d = [] then Message 400 ''No agents available''
          else if mimetype f = ''application/vnd.openxmlformats-officedocument.spreadsheetml.sheet''
                  \<or> mimetype f = ''application/vnd.ms-excel''
          then (case xlsx_read (buffer f) of
                  None \<Rightarrow> ServerError
                | Some jsonData \<Rightarrow>
                    let draft = make_draft (agents d) (xlsx_results jsonData)
                    in DraftOk (length draft) draft)
          else if mimetype f = ''text/csv''
          then (let draft = make_draft (agents d) (csv_results (csv_read (buffer f)))
                in DraftOk (length draft) draft)
          else Message 400 ''Unsupported file type'')"

section \<open>Commit\<close>

text \<open>
  A value sent where the schema expects an ObjectId: a string that casts to an
  ObjectId, or any other truthy value, on which Mongoose raises a cast error.
\<close>

datatype idval = Oid oid | NotOid

text \<open>
  One element of \<^verbatim>\<open>req.body.tasks\<close>. Every field may be absent. Of
  \<^verbatim>\<open>draftAssignedTo\<close> only \<^verbatim>\<open>id\<close> is read: \<open>None\<close> is a missing object, \<open>Some None\<close> an
  object without a truthy \<^verbatim>\<open>id\<close>.
\<close>

record entry =
  in_firstName :: "jsstring option"
  in_phone :: "jsstring option"
  in_notes :: "jsstring option"
  in_draftAssignedTo :: "idval option option"
  in_agentId :: "idval option"
  in_assignedTo :: "idval option"

text \<open>One element of \<^verbatim>\<open>processedTasks\<close>.\<close>

record processed =
  p_firstName :: "jsstring option"
  p_phone :: "jsstring option"
  p_notes :: jsstring
  p_agentId :: "idval option"
  p_assignedTo :: "idval option"
  p_status :: string
  p_isFinalized :: bool

text \<open>\<^verbatim>\<open>task.draftAssignedTo?.id\<close>\<close>

definition draft_id :: "entry \<Rightarrow> idval option" where
  "draft_id e = (case in_draftAssignedTo e of None \<Rightarrow> None | Some i \<Rightarrow> i)"

text \<open>The callback of \<^verbatim>\<open>tasks.map(task => ...)\<close> in \<^verbatim>\<open>confirmDraft\<close>.\<close>

definition process :: "entry \<Rightarrow> processed" where
  "process e =
     \<lparr> p_firstName = in_firstName e,
       p_phone = in_phone e,
       p_notes = (if truthy_str (in_notes e) then the (in_notes e) else []),
       p_agentId = (case draft_id e of Some i \<Rightarrow> Some i | None \<Rightarrow> in_agentId e),
       p_assignedTo = (case draft_id e of Some i \<Rightarrow> Some i | None \<Rightarrow> in_assignedTo e),
       p_status = ''pending'',
       p_isFinalized = False \<rparr>"

text \<open>The \<^verbatim>\<open>enum\<close> of \<^verbatim>\<open>status\<close> in \<^verbatim>\<open>taskSchema\<close>, and \<^verbatim>\<open>allowedStatuses\<close>.\<close>

definition allowedStatuses :: "string list" where
  "allowedStatuses = [''pending'', ''in-progress'', ''completed'', ''failed'']"

text \<open>
  Validation of a new document against \<^verbatim>\<open>taskSchema\<close>: \<^verbatim>\<open>firstName\<close> and \<^verbatim>\<open>phone\<close>
  are \<^verbatim>\<open>required\<close> strings (present and not empty), the two references must cast to
  ObjectIds when present, \<^verbatim>\<open>status\<close> must be in the enum.
\<close>

definition valid_doc :: "processed \<Rightarrow> bool" where
  "valid_doc p \<longleftrightarrow>
     truthy_str (p_firstName p) \<and> truthy_str (p_phone p) \<and>
     p_agentId p \<noteq> Some NotOid \<and> p_assignedTo p \<noteq> Some NotOid \<and>
     p_status p \<in> set allowedStatuses"

fun cast_id :: "idval option \<Rightarrow> oid option" where
  "cast_id (Some (Oid i)) = Some i"
| "cast_id _ = None"

text \<open>
  The document Mongoose builds from a validated element: a generated \<^verbatim>\<open>_id\<close> and both
  timestamps set to the current time.
\<close>

definition new_task :: "oid \<Rightarrow> time \<Rightarrow> processed \<Rightarrow> task" where
  "new_task i now p =
     \<lparr> task_id = i,
       firstName = the (p_firstName p),
       phone = the (p_phone p),
       task_notes = p_notes p,
       agentId = cast_id (p_agentId p),
       assignedTo = cast_id (p_assignedTo p),
       status = p_status p,
       isFinalized = p_isFinalized p,
       createdAt = now,
       updatedAt = now \<rparr>"

text \<open>
  \<^verbatim>\<open>Task.insertMany\<close> with its default options validates every document first and
  rejects the whole batch when one fails; otherwise all are inserted. \<open>gen k\<close> is
  the ObjectId generated for the document at position \<open>k\<close>.
\<close>

definition insertMany :: "(nat \<Rightarrow> oid) \<Rightarrow> time \<Rightarrow> processed list \<Rightarrow> task list option" where
  "insertMany gen now docs =
     (if list_all valid_doc docs
      then Some (map (\<lambda>(k, p). new_task (gen k) now p) (enumerate 0 docs))
      else None)"

text \<open>
  \<open>body\<close> is \<^verbatim>\<open>req.body.tasks\<close>: \<open>None\<close> when it is not an array.
\<close>

definition confirmDraft ::
  "(nat \<Rightarrow> oid) \<Rightarrow> time \<Rightarrow> entry list option \<Rightarrow> db \<Rightarrow> response \<times> db" where
  "confirmDraft gen now body d =
     (case body of
        None \<Rightarrow> (Message 400 ''No tasks provided.'', d)
      | Some ts \<Rightarrow>
          if ts = [] then (Message 400 ''No tasks provided.'', d)
          else (let processedTasks = map process ts
                in case insertMany gen now processedTasks of
                     None \<Rightarrow> (ServerError, d)
                   | Some inserted \<Rightarrow>
                       (TasksSaved (length inserted), d\<lparr>tasks := tasks d @ inserted\<rparr>)))"

section \<open>Lifecycle\<close>

text \<open>\<^verbatim>\<open>req.user\<close>, the decoded token: \<^verbatim>\<open>{ id, role }\<close>.\<close>

record user =
  user_id :: oid
  role :: string

definition findById :: "oid \<Rightarrow> task list \<Rightarrow> task option" where
  "findById i ts = find (\<lambda>t. task_id t = i) ts"

text \<open>
  Validation of a stored document on \<^verbatim>\<open>save\<close>, against the same schema.
\<close>

definition valid_task :: "task \<Rightarrow> bool" where
  "valid_task t \<longleftrightarrow> firstName t \<noteq> [] \<and> phone t \<noteq> [] \<and> status t \<in> set allowedStatuses"

text \<open>
  \<^verbatim>\<open>task.save()\<close> for a document loaded as \<open>old\<close> and changed to \<open>new\<close>: validation
  failure rejects; an unmodified document is left as it is; a modified one gets a
  fresh \<^verbatim>\<open>updatedAt\<close>. The result is written back over the document with the same
  \<^verbatim>\<open>_id\<close>.
\<close>

definition save :: "time \<Rightarrow> task \<Rightarrow> task \<Rightarrow> task option" where
  "save now old new =
     (if \<not> valid_task new then None
      else if new = old then Some old
      else Some (new\<lparr>updatedAt := now\<rparr>))"

fun write_back :: "task \<Rightarrow> task list \<Rightarrow> task list" where
  "write_back t [] = []"
| "write_back t (x # xs) = (if task_id x = task_id t then t # xs else x # write_back t xs)"

text \<open>
  \<open>taskId\<close> is \<^verbatim>\<open>req.params.id\<close>: \<open>None\<close> when the path segment does not cast to an
  ObjectId, on which \<^verbatim>\<open>findById\<close> rejects. The permission check compares
  \<^verbatim>\<open>String(task.assignedTo)\<close> and \<^verbatim>\<open>String(task.agentId)\<close> with \<^verbatim>\<open>String(req.user.id)\<close>:
  the strings of two ObjectIds are equal exactly when the ids are, and the string of an
  unset reference equals the string of no id.
\<close>

definition updateTaskStatus ::
  "time \<Rightarrow> user \<Rightarrow> oid option \<Rightarrow> string \<Rightarrow> db \<Rightarrow> response \<times> db" where
  "updateTaskStatus now u taskId st d =
     (if st \<notin> set allowedStatuses then (Message 400 ''Invalid status value'', d)
      else case taskId of
        None \<Rightarrow> (ServerError, d)
      | Some i \<Rightarrow>
         (case findById i (tasks d) of
            None \<Rightarrow> (Message 404 ''Task not found'', d)
          | Some t \<Rightarrow>
              if role u = ''agent'' \<and>
                 \<not> (assignedTo t = Some (user_id u) \<or> agentId t = Some (user_id u))
              then (Message 403 ''You are not assigned to this task'', d)
              else (case save now t (t\<lparr>status := st\<rparr>) of
                      None \<Rightarrow> (ServerError, d)
                    | Some t' \<Rightarrow>
                        (TaskOk ''Task status updated successfully'' t',
                         d\<lparr>tasks := write_back t' (tasks d)\<rparr>))))"

text \<open>\<open>newAgentId\<close> is \<^verbatim>\<open>req.body.newAgentId\<close>, absent or any value.\<close>

definition reassignTask ::
  "time \<Rightarrow> oid option \<Rightarrow> idval option \<Rightarrow> db \<Rightarrow> response \<times> db" where
  "reassignTask now taskId newAgentId d =
     (case taskId of
        None \<Rightarrow> (ServerError, d)
      | Some i \<Rightarrow>
         (case findById i (tasks d) of
            None \<Rightarrow> (Message 404 ''Task not found'', d)
          | Some t \<Rightarrow>
              if newAgentId = Some NotOid then (ServerError, d)
              else (case save now t (t\<lparr>assignedTo := cast_id newAgentId\<rparr>) of
                      None \<Rightarrow> (ServerError, d)
                    | Some t' \<Rightarrow>
                        (TaskOk ''Task reassigned successfully'' t',
                         d\<lparr>tasks := write_back t' (tasks d)\<rparr>))))"

section \<open>Finalization\<close>

text \<open>
  \<^verbatim>\<open>Task.updateMany({ isFinalized: false }, { isFinalized: true })\<close>; with schema
  timestamps the update also sets \<^verbatim>\<open>updatedAt\<close> on the documents it matches. The
  result of \<^verbatim>\<open>updateMany\<close> is discarded and the response holds a message only.
\<close>

definition finalize_doc :: "time \<Rightarrow> task \<Rightarrow> task" where
  "finalize_doc now t = (if isFinalized t = False then t\<lparr>isFinalized := True, updatedAt := now\<rparr> else t)"

definition finalizeAssignments :: "time \<Rightarrow> db \<Rightarrow> response \<times> db" where
  "finalizeAssignments now d =
     (Message 200 ''All tasks finalized successfully'', d\<lparr>tasks := map (finalize_doc now) (tasks d)\<rparr>)"

section \<open>Sample data\<close>

text \<open>Two agents, some CSV rows, stored tasks and request entries used in the examples.\<close>

definition W1 :: agent where
  "W1 = \<lparr> agent_id = 1, name = js ''W1'', email = js ''w1@example.org'', password = [],
          agent_phone = js ''100'', agent_role = ''agent'' \<rparr>"

definition W2 :: agent where
  "W2 = \<lparr> agent_id = 2, name = js ''W2'', email = js ''w2@example.org'', password = [],
          agent_phone = js ''200'', agent_role = ''agent'' \<rparr>"

definition row_ann :: csv_row where
  "row_ann = [''FirstName'' \<mapsto> js ''Ann'', ''Phone'' \<mapsto> js ''555-1111'', ''Notes'' \<mapsto> []]"

definition row_bob :: csv_row where
  "row_bob = [''FirstName'' \<mapsto> js '' Bob'', ''Phone'' \<mapsto> js ''555-2222 '',
              ''Notes'' \<mapsto> js ''urgent'', ''City'' \<mapsto> js ''Oslo'']"

definition row_blank :: csv_row where
  "row_blank = [''FirstName'' \<mapsto> js ''   '', ''Phone'' \<mapsto> js ''555-3333'']"

definition row_nophone :: csv_row where
  "row_nophone = [''FirstName'' \<mapsto> js ''Cy'', ''Phone'' \<mapsto> []]"

definition xrow_blank :: xlsx_row where
  "xrow_blank = [''FirstName'' \<mapsto> XStr (js ''   ''), ''Phone'' \<mapsto> XNum 5553333]"

definition csv_file :: upload where
  "csv_file = \<lparr> mimetype = ''text/csv'', buffer = [] \<rparr>"

definition task_A :: task where
  "task_A = \<lparr> task_id = 10, firstName = js ''Ann'', phone = js ''555-1111'', task_notes = [],
              agentId = Some 1, assignedTo = Some 1, status = ''pending'', isFinalized = False,
              createdAt = 3, updatedAt = 3 \<rparr>"

text \<open>A task created for agent 1 and since reassigned to agent 2.\<close>

definition task_B :: task where
  "task_B = \<lparr> task_id = 11, firstName = js ''Bob'', phone = js ''555-2222'', task_notes = [],
              agentId = Some 1, assignedTo = Some 2, status = ''pending'', isFinalized = False,
              createdAt = 3, updatedAt = 4 \<rparr>"

definition entry_ann :: entry where
  "entry_ann = \<lparr> in_firstName = Some (js ''Ann''), in_phone = Some (js ''555-1111''),
                 in_notes = None, in_draftAssignedTo = Some (Some (Oid 7)),
                 in_agentId = Some (Oid 7), in_assignedTo = Some (Oid 7) \<rparr>"

definition entry_noname :: entry where
  "entry_noname = \<lparr> in_firstName = Some [], in_phone = Some (js ''555-2222''),
                    in_notes = None, in_draftAssignedTo = None,
                    in_agentId = None, in_assignedTo = None \<rparr>"

section \<open>Auxiliary facts\<close>

lemmas sample_defs = W1_def W2_def row_ann_def row_bob_def row_blank_def row_nophone_def
  csv_file_def task_A_def task_B_def entry_ann_def entry_noname_def

lemmas eval_simps = js_def trim_def is_ws_def

lemma count_mod:
  assumes "k < M"
  shows "length (filter (\<lambda>i. i mod M = k) [0..<N]) = N div M + (if k < N mod M then 1 else 0)"
proof (induction N)
  case 0
  then show ?case by simp
next
  case (Suc N)
  from assms have "0 < M" by simp
  then have r: "N mod M < M" by simp
  show ?case
    using Suc assms r by (auto simp: mod_Suc div_Suc)
qed

lemma floor_or_ceil:
  assumes "0 < (M::nat)"
  shows "N div M + (if k < N mod M then 1 else 0) = N div M \<or>
         N div M + (if k < N mod M then 1 else 0) = (N + M - 1) div M"
proof (cases "k < N mod M")
  case False
  then show ?thesis by simp
next
  case True
  then have pos: "0 < N mod M" by simp
  have split: "N = N div M * M + N mod M" by simp
  have lt: "N mod M - 1 < M" using assms by (simp add: less_imp_diff_less)
  have "N + M - 1 = (N mod M - 1) + (N div M * M + M)"
    using pos split by linarith
  then have "N + M - 1 = (N mod M - 1) + (N div M + 1) * M"
    by (simp only: add_mult_distrib mult_1)
  then have "(N + M - 1) div M = ((N mod M - 1) + (N div M + 1) * M) div M"
    by (rule arg_cong)
  also have "\<dots> = (N div M + 1) + (N mod M - 1) div M"
    by (rule div_mult_self1) (use assms in simp)
  also have "(N mod M - 1) div M = 0"
    using lt by (rule div_less)
  finally show ?thesis using True by simp
qed

lemma length_make_draft: "length (make_draft ags results) = length results"
  by (simp add: make_draft_def)

lemma nth_make_draft:
  "i < length results \<Longrightarrow> make_draft ags results ! i = assign_agent ags i (results ! i)"
  by (simp add: make_draft_def nth_enumerate_eq)

lemma share_make_draft:
  assumes "distinct (map agent_id ags)" "k < length ags"
  shows "length (filter (\<lambda>e. draft_assignedTo e = agent_id (ags ! k)) (make_draft ags results))
         = length (filter (\<lambda>i. i mod length ags = k) [0..<length results])"
proof -
  have eq: "(agent_id (ags ! (i mod length ags)) = agent_id (ags ! k)) = (i mod length ags = k)" for i
  proof -
    from assms(2) have "0 < length ags" by auto
    then have "i mod length ags < length ags" by simp
    then show ?thesis
      using assms nth_eq_iff_index_eq [of "map agent_id ags" "i mod length ags" k] by simp
  qed
  have "filter (\<lambda>e. draft_assignedTo e = agent_id (ags ! k)) (make_draft ags results)
        = map (\<lambda>(index, t). assign_agent ags index t)
            (filter ((\<lambda>i. i mod length ags = k) \<circ> fst) (enumerate 0 results))"
    by (simp add: make_draft_def filter_map comp_def case_prod_beta assign_agent_def Let_def eq
         candidate.extend_def)
  then have "length (filter (\<lambda>e. draft_assignedTo e = agent_id (ags ! k)) (make_draft ags results))
        = length (filter ((\<lambda>i. i mod length ags = k) \<circ> fst) (enumerate 0 results))"
    by simp
  also have "\<dots> = length (filter (\<lambda>i. i mod length ags = k) (map fst (enumerate 0 results)))"
    by (simp only: filter_map length_map)
  finally show ?thesis by simp
qed

lemma share_floor_or_ceil:
  assumes "distinct (map agent_id ags)" "k < length ags"
  shows "length (filter (\<lambda>e. draft_assignedTo e = agent_id (ags ! k)) (make_draft ags results))
           = length results div length ags \<or>
         length (filter (\<lambda>e. draft_assignedTo e = agent_id (ags ! k)) (make_draft ags results))
           = (length results + length ags - 1) div length ags"
proof -
  from assms(2) have "0 < length ags" by auto
  then show ?thesis
    using floor_or_ceil [of "length ags" "length results" k]
    by (simp only: share_make_draft [OF assms] count_mod [OF assms(2)])
qed

lemma draftUpload_parsed:
  assumes "agents d \<noteq> []"
    and "(mimetype f = ''application/vnd.openxmlformats-officedocument.spreadsheetml.sheet''
            \<or> mimetype f = ''application/vnd.ms-excel'')
           \<and> xlsx_read (buffer f) = Some rows \<and> results = xlsx_results rows
         \<or> mimetype f = ''text/csv'' \<and> results = csv_results (csv_read (buffer f))"
  shows "draftUpload xlsx_read csv_read (Some f) d
         = DraftOk (length results) (make_draft (agents d) results)"
  using assms by (auto simp: draftUpload_def Let_def length_make_draft)

section \<open>Round-robin distribution\<close>

text \<open>
  C1. Let an uploaded file yield the ordered list \<open>results\<close> of \<open>N\<close> accepted records
  (through either branch), and let the agent collection hold \<open>M \<ge> 1\<close> agents. Then
  \<open>draftUpload\<close> answers with a draft of \<open>N\<close> elements whose element \<open>i\<close> is record \<open>i\<close>
  paired with the agent at position \<open>i mod M\<close>; every agent is proposed for
  \<open>\<lfloor>N/M\<rfloor>\<close> or \<open>\<lceil>N/M\<rceil>\<close> records (agents being told apart by their unique ids); and
  the answer depends on the file and the agent list only, so running again on the
  same inputs gives the same pairing.
\<close>

theorem draftUpload_round_robin:
  assumes "agents d \<noteq> []"
    and "(mimetype f = ''application/vnd.openxmlformats-officedocument.spreadsheetml.sheet''
            \<or> mimetype f = ''application/vnd.ms-excel'')
           \<and> xlsx_read (buffer f) = Some rows \<and> results = xlsx_results rows
         \<or> mimetype f = ''text/csv'' \<and> results = csv_results (csv_read (buffer f))"
  shows "\<exists>draft.
           draftUpload xlsx_read csv_read (Some f) d = DraftOk (length results) draft \<and>
           length draft = length results \<and>
           (\<forall>i < length results.
              candidate.truncate (draft ! i) = results ! i \<and>
              draft_agentId (draft ! i) = agent_id (agents d ! (i mod length (agents d))) \<and>
              draft_assignedTo (draft ! i) = agent_id (agents d ! (i mod length (agents d))) \<and>
              sum_id (draftAssignedTo (draft ! i)) = agent_id (agents d ! (i mod length (agents d))) \<and>
              sum_name (draftAssignedTo (draft ! i)) = name (agents d ! (i mod length (agents d))) \<and>
              sum_email (draftAssignedTo (draft ! i)) = email (agents d ! (i mod length (agents d)))) \<and>
           (distinct (map agent_id (agents d)) \<longrightarrow>
              (\<forall>k < length (agents d).
                 length (filter (\<lambda>e. draft_assignedTo e = agent_id (agents d ! k)) draft)
                   = length results div length (agents d) \<or>
                 length (filter (\<lambda>e. draft_assignedTo e = agent_id (agents d ! k)) draft)
                   = (length results + length (agents d) - 1) div length (agents d))) \<and>
           (\<forall>d' :: db. agents d' = agents d \<longrightarrow>
              draftUpload xlsx_read csv_read (Some f) d' = DraftOk (length results) draft)"
proof (intro exI conjI allI impI)
  show "draftUpload xlsx_read csv_read (Some f) d
        = DraftOk (length results) (make_draft (agents d) results)"
    using assms by (rule draftUpload_parsed)
next
  show "length (make_draft (agents d) results) = length results"
    by (rule length_make_draft)
next
  fix i assume "i < length results"
  then have nth: "make_draft (agents d) results ! i = assign_agent (agents d) i (results ! i)"
    by (rule nth_make_draft)
  show "candidate.truncate (make_draft (agents d) results ! i) = results ! i"
    by (simp add: nth assign_agent_def Let_def candidate.extend_def candidate.truncate_def)
  show "draft_agentId (make_draft (agents d) results ! i)
        = agent_id (agents d ! (i mod length (agents d)))"
    by (simp add: nth assign_agent_def Let_def candidate.extend_def)
  show "draft_assignedTo (make_draft (agents d) results ! i)
        = agent_id (agents d ! (i mod length (agents d)))"
    by (simp add: nth assign_agent_def Let_def candidate.extend_def)
  show "sum_id (draftAssignedTo (make_draft (agents d) results ! i))
        = agent_id (agents d ! (i mod length (agents d)))"
    by (simp add: nth assign_agent_def Let_def candidate.extend_def)
  show "sum_name (draftAssignedTo (make_draft (agents d) results ! i))
        = name (agents d ! (i mod length (agents d)))"
    by (simp add: nth assign_agent_def Let_def candidate.extend_def)
  show "sum_email (draftAssignedTo (make_draft (agents d) results ! i))
        = email (agents d ! (i mod length (agents d)))"
    by (simp add: nth assign_agent_def Let_def candidate.extend_def)
next
  fix k assume "distinct (map agent_id (agents d))" "k < length (agents d)"
  then show "length (filter (\<lambda>e. draft_assignedTo e = agent_id (agents d ! k))
                      (make_draft (agents d) results))
               = length results div length (agents d) \<or>
             length (filter (\<lambda>e. draft_assignedTo e = agent_id (agents d ! k))
                      (make_draft (agents d) results))
               = (length results + length (agents d) - 1) div length (agents d)"
    by (rule share_floor_or_ceil)
next
  fix d' :: db assume same: "agents d' = agents d"
  with assms(1) have "agents d' \<noteq> []" by simp
  then have "draftUpload xlsx_read csv_read (Some f) d'
        = DraftOk (length results) (make_draft (agents d') results)"
    using assms(2) by (rule draftUpload_parsed)
  with same show "draftUpload xlsx_read csv_read (Some f) d'
        = DraftOk (length results) (make_draft (agents d) results)"
    by simp
qed

lemma digits_5553333: "digits 5553333 = js ''5553333''"
  by (simp add: digits.simps js_def)

lemma csv_results_sample:
  "csv_results [row_ann, row_bob, row_nophone] =
     [\<lparr> cand_firstName = js ''Ann'', cand_phone = js ''555-1111'', cand_notes = [] \<rparr>,
      \<lparr> cand_firstName = js ''Bob'', cand_phone = js ''555-2222'', cand_notes = js ''urgent'' \<rparr>]"
  by (simp add: sample_defs eval_simps)

theorem draftUpload_round_robin_witness:
  "\<exists>draft. draftUpload (\<lambda>b. None) (\<lambda>b. [row_ann, row_bob, row_nophone]) (Some csv_file)
              \<lparr> agents = [W1, W2], tasks = [] \<rparr> = DraftOk 2 draft \<and>
           draft_assignedTo (draft ! 0) = 1 \<and> draft_assignedTo (draft ! 1) = 2 \<and>
           length (filter (\<lambda>e. draft_assignedTo e = 1) draft) = 1"
proof -
  let ?d = "\<lparr> agents = [W1, W2], tasks = [] \<rparr>"
  let ?csv = "\<lambda>b :: 8 word list. [row_ann, row_bob, row_nophone]"
  let ?rs = "csv_results [row_ann, row_bob, row_nophone]"
  have h1: "agents ?d \<noteq> []" by simp
  have h2: "(mimetype csv_file = ''application/vnd.openxmlformats-officedocument.spreadsheetml.sheet''
            \<or> mimetype csv_file = ''application/vnd.ms-excel'')
           \<and> (\<lambda>b. None) (buffer csv_file) = Some [] \<and> ?rs = xlsx_results []
         \<or> mimetype csv_file = ''text/csv'' \<and> ?rs = csv_results (?csv (buffer csv_file))"
    by (rule disjI2) (simp only: csv_file_def upload.simps simp_thms)
  have len: "length ?rs = 2" by (simp only: csv_results_sample list.size)
  have dist: "distinct (map agent_id (agents ?d))" by (simp add: W1_def W2_def)
  from draftUpload_round_robin [where d = ?d and f = csv_file and xlsx_read = "\<lambda>b. None"
      and csv_read = ?csv and rows = "[]" and results = ?rs, OF h1 h2]
  obtain draft where
    a: "draftUpload (\<lambda>b. None) ?csv (Some csv_file) ?d = DraftOk (length ?rs) draft" and
    b: "\<forall>i < length ?rs. draft_assignedTo (draft ! i) = agent_id (agents ?d ! (i mod length (agents ?d)))" and
    c: "distinct (map agent_id (agents ?d)) \<longrightarrow>
          (\<forall>k < length (agents ?d).
             length (filter (\<lambda>e. draft_assignedTo e = agent_id (agents ?d ! k)) draft)
               = length ?rs div length (agents ?d) \<or>
             length (filter (\<lambda>e. draft_assignedTo e = agent_id (agents ?d ! k)) draft)
               = (length ?rs + length (agents ?d) - 1) div length (agents ?d))"
    by blast
  from b [unfolded len, rule_format, of 0] have b0: "draft_assignedTo (draft ! 0) = 1"
    by (simp add: W1_def)
  from b [unfolded len, rule_format, of 1] have b1: "draft_assignedTo (draft ! 1) = 2"
    by (simp add: W2_def)
  from c [unfolded len, rule_format, OF dist, of 0]
  have c1: "length (filter (\<lambda>e. draft_assignedTo e = 1) draft) = 1"
    by (simp add: W1_def numeral_2_eq_2 [symmetric])
  from a [unfolded len] b0 b1 c1 show ?thesis by blast
qed

section \<open>Empty uploads\<close>

text \<open>
  A readable CSV file whose only row has an empty phone, with one agent in the
  collection: the answer is status 200 with \<^verbatim>\<open>{ total: 0, draft: [] }\<close>, not an error.
\<close>

theorem draftUpload_empty_counterexample:
  "draftUpload (\<lambda>b. None) (\<lambda>b. [row_nophone]) (Some csv_file) \<lparr> agents = [W1], tasks = [] \<rparr>
     = DraftOk 0 []"
  by (simp add: draftUpload_def make_draft_def sample_defs eval_simps)

text \<open>
  C7 (as the code has it). When a file is present, at least one agent exists and the
  file decodes but none of its rows is accepted, \<open>draftUpload\<close> answers with
  status 200, \<^verbatim>\<open>total\<close> 0 and an empty draft.
\<close>

theorem draftUpload_empty_draft:
  assumes "agents d \<noteq> []"
    and "(mimetype f = ''application/vnd.openxmlformats-officedocument.spreadsheetml.sheet''
            \<or> mimetype f = ''application/vnd.ms-excel'')
           \<and> xlsx_read (buffer f) = Some rows \<and> xlsx_results rows = []
         \<or> mimetype f = ''text/csv'' \<and> csv_results (csv_read (buffer f)) = []"
  shows "draftUpload xlsx_read csv_read (Some f) d = DraftOk 0 []"
  using assms by (auto simp: draftUpload_def make_draft_def)

theorem draftUpload_empty_draft_witness:
  "draftUpload (\<lambda>b. Some []) (\<lambda>b. []) (Some \<lparr> mimetype = ''application/vnd.ms-excel'', buffer = [] \<rparr>)
     \<lparr> agents = [W1, W2], tasks = [] \<rparr> = DraftOk 0 []"
proof -
  let ?d = "\<lparr> agents = [W1, W2], tasks = [] \<rparr>"
  let ?f = "\<lparr> mimetype = ''application/vnd.ms-excel'', buffer = [] \<rparr>"
  have h1: "agents ?d \<noteq> []" by simp
  have h2: "(mimetype ?f = ''application/vnd.openxmlformats-officedocument.spreadsheetml.sheet''
            \<or> mimetype ?f = ''application/vnd.ms-excel'')
           \<and> (\<lambda>b. Some []) (buffer ?f) = Some [] \<and> xlsx_results [] = []
         \<or> mimetype ?f = ''text/csv'' \<and> csv_results ((\<lambda>b. []) (buffer ?f)) = []"
    by simp
  show ?thesis
    by (rule draftUpload_empty_draft [where d = ?d and f = ?f and xlsx_read = "\<lambda>b. Some []"
          and csv_read = "\<lambda>b. []" and rows = "[]", OF h1 h2])
qed

section \<open>Row filtering\<close>

text \<open>
  C4. The row handlers test \<^verbatim>\<open>FirstName && Phone\<close> before they trim. A row whose
  \<^verbatim>\<open>FirstName\<close> is three spaces passes the test and is pushed with the empty string
  as its name, although the field is empty after trimming; this holds for the CSV
  branch and for the spreadsheet branch alike.
\<close>

theorem blank_name_accepted:
  "trim (the (row_blank ''FirstName'')) = [] \<and>
   csv_results [row_blank] =
     [\<lparr> cand_firstName = [], cand_phone = js ''555-3333'', cand_notes = [] \<rparr>] \<and>
   xlsx_results [xrow_blank] =
     [\<lparr> cand_firstName = [], cand_phone = js ''5553333'', cand_notes = [] \<rparr>]"
proof (intro conjI)
  show "trim (the (row_blank ''FirstName'')) = []"
    by (simp add: row_blank_def eval_simps)
  show "csv_results [row_blank] =
     [\<lparr> cand_firstName = [], cand_phone = js ''555-3333'', cand_notes = [] \<rparr>]"
    by (simp add: row_blank_def eval_simps)
  show "xlsx_results [xrow_blank] =
     [\<lparr> cand_firstName = [], cand_phone = js ''5553333'', cand_notes = [] \<rparr>]"
    by (simp add: xrow_blank_def digits_5553333 trim_def) (simp add: js_def is_ws_def)
qed

section \<open>Validation at commit\<close>

lemma valid_doc_process:
  "valid_doc (process e) \<longleftrightarrow>
     truthy_str (in_firstName e) \<and> truthy_str (in_phone e) \<and>
     (case draft_id e of
        Some i \<Rightarrow> i \<noteq> NotOid
      | None \<Rightarrow> in_agentId e \<noteq> Some NotOid \<and> in_assignedTo e \<noteq> Some NotOid)"
  by (simp add: valid_doc_def process_def allowedStatuses_def split: option.split)

lemma truthy_str_the: "truthy_str v \<Longrightarrow> the v \<noteq> []"
  by (cases v) simp_all

lemma nth_inserted:
  "k < length ts \<Longrightarrow>
   map (\<lambda>(k, p). new_task (gen k) now p) (enumerate 0 (map process ts)) ! k
     = new_task (gen k) now (process (ts ! k))"
  by (simp add: nth_enumerate_eq)

lemma confirmDraft_all_valid:
  assumes "ts \<noteq> []" and "\<forall>e \<in> set ts. valid_doc (process e)"
  shows "confirmDraft gen now (Some ts) d =
           (TasksSaved (length ts),
            d\<lparr>tasks := tasks d @ map (\<lambda>(k, p). new_task (gen k) now p) (enumerate 0 (map process ts))\<rparr>)"
  using assms by (simp add: confirmDraft_def insertMany_def list_all_iff Let_def)

lemma confirmDraft_some_invalid:
  assumes "ts \<noteq> []" and "\<not> (\<forall>e \<in> set ts. valid_doc (process e))"
  shows "confirmDraft gen now (Some ts) d = (ServerError, d)"
  using assms by (simp add: confirmDraft_def insertMany_def list_all_iff Let_def)

text \<open>
  C2 (as the code has it). For every non-empty list of entries, \<open>confirmDraft\<close>
  validates every entry before anything is inserted: \<^verbatim>\<open>firstName\<close> and \<^verbatim>\<open>phone\<close> must be
  present and non-empty, and the worker references must be well-formed ids. When one
  entry fails, the answer is a server error and nothing is inserted. Otherwise one
  task per entry is appended, \<^verbatim>\<open>pending\<close> and not finalized, with a non-empty name and
  phone, and with the proposed worker reference stored as it was supplied
  (\<^verbatim>\<open>draftAssignedTo.id\<close> if present, else the entry's own reference): the agent
  collection is not consulted, no worker is substituted and the response holds the
  count only.
\<close>

theorem confirmDraft_validates_fields:
  assumes "ts \<noteq> []"
  shows "if \<forall>e \<in> set ts.
              truthy_str (in_firstName e) \<and> truthy_str (in_phone e) \<and>
              (case draft_id e of
                 Some i \<Rightarrow> i \<noteq> NotOid
               | None \<Rightarrow> in_agentId e \<noteq> Some NotOid \<and> in_assignedTo e \<noteq> Some NotOid)
         then \<exists>inserted.
                confirmDraft gen now (Some ts) d
                  = (TasksSaved (length ts), d\<lparr>tasks := tasks d @ inserted\<rparr>) \<and>
                length inserted = length ts \<and>
                (\<forall>k < length ts.
                   task_id (inserted ! k) = gen k \<and>
                   firstName (inserted ! k) = the (in_firstName (ts ! k)) \<and>
                   firstName (inserted ! k) \<noteq> [] \<and>
                   phone (inserted ! k) = the (in_phone (ts ! k)) \<and>
                   phone (inserted ! k) \<noteq> [] \<and>
                   agentId (inserted ! k)
                     = cast_id (case draft_id (ts ! k) of Some i \<Rightarrow> Some i
                                | None \<Rightarrow> in_agentId (ts ! k)) \<and>
                   assignedTo (inserted ! k)
                     = cast_id (case draft_id (ts ! k) of Some i \<Rightarrow> Some i
                                | None \<Rightarrow> in_assignedTo (ts ! k)) \<and>
                   status (inserted ! k) = ''pending'' \<and>
                   isFinalized (inserted ! k) = False)
         else confirmDraft gen now (Some ts) d = (ServerError, d)"
proof -
  let ?ok = "\<lambda>e. truthy_str (in_firstName e) \<and> truthy_str (in_phone e) \<and>
              (case draft_id e of
                 Some i \<Rightarrow> i \<noteq> NotOid
               | None \<Rightarrow> in_agentId e \<noteq> Some NotOid \<and> in_assignedTo e \<noteq> Some NotOid)"
  have ok: "?ok e \<longleftrightarrow> valid_doc (process e)" for e
    by (simp only: valid_doc_process)
  show ?thesis
  proof (cases "\<forall>e \<in> set ts. ?ok e")
  case False
  then have "\<not> (\<forall>e \<in> set ts. valid_doc (process e))"
    using ok by blast
  with assms have "confirmDraft gen now (Some ts) d = (ServerError, d)"
    by (rule confirmDraft_some_invalid)
  then show ?thesis
    unfolding if_not_P [OF False] .
next
  case okay: True
  then have True: "\<forall>e \<in> set ts. valid_doc (process e)"
    using ok by blast
  let ?ins = "map (\<lambda>(k, p). new_task (gen k) now p) (enumerate 0 (map process ts))"
  have run: "confirmDraft gen now (Some ts) d = (TasksSaved (length ts), d\<lparr>tasks := tasks d @ ?ins\<rparr>)"
    using assms True by (rule confirmDraft_all_valid)
  have len: "length ?ins = length ts" by simp
  have each: "task_id (?ins ! k) = gen k \<and>
              firstName (?ins ! k) = the (in_firstName (ts ! k)) \<and>
              firstName (?ins ! k) \<noteq> [] \<and>
              phone (?ins ! k) = the (in_phone (ts ! k)) \<and>
              phone (?ins ! k) \<noteq> [] \<and>
              agentId (?ins ! k)
                = cast_id (case draft_id (ts ! k) of Some i \<Rightarrow> Some i | None \<Rightarrow> in_agentId (ts ! k)) \<and>
              assignedTo (?ins ! k)
                = cast_id (case draft_id (ts ! k) of Some i \<Rightarrow> Some i | None \<Rightarrow> in_assignedTo (ts ! k)) \<and>
              status (?ins ! k) = ''pending'' \<and>
              isFinalized (?ins ! k) = False" if k: "k < length ts" for k
  proof -
    from k have "ts ! k \<in> set ts" by simp
    with True have "valid_doc (process (ts ! k))" by blast
    then have "truthy_str (in_firstName (ts ! k))" "truthy_str (in_phone (ts ! k))"
      by (simp_all add: valid_doc_process)
    then have "the (in_firstName (ts ! k)) \<noteq> []" "the (in_phone (ts ! k)) \<noteq> []"
      by (simp_all add: truthy_str_the)
    then show ?thesis
      unfolding nth_inserted [OF k] by (simp add: new_task_def process_def)
  qed
  from run len each have "\<exists>inserted.
      confirmDraft gen now (Some ts) d = (TasksSaved (length ts), d\<lparr>tasks := tasks d @ inserted\<rparr>) \<and>
      length inserted = length ts \<and>
      (\<forall>k < length ts.
         task_id (inserted ! k) = gen k \<and>
         firstName (inserted ! k) = the (in_firstName (ts ! k)) \<and>
         firstName (inserted ! k) \<noteq> [] \<and>
         phone (inserted ! k) = the (in_phone (ts ! k)) \<and>
         phone (inserted ! k) \<noteq> [] \<and>
         agentId (inserted ! k)
           = cast_id (case draft_id (ts ! k) of Some i \<Rightarrow> Some i | None \<Rightarrow> in_agentId (ts ! k)) \<and>
         assignedTo (inserted ! k)
           = cast_id (case draft_id (ts ! k) of Some i \<Rightarrow> Some i | None \<Rightarrow> in_assignedTo (ts ! k)) \<and>
         status (inserted ! k) = ''pending'' \<and>
         isFinalized (inserted ! k) = False)"
    by blast
  then show ?thesis
    unfolding if_P [OF okay] .
qed
qed


lemma confirmDraft_entry_ann:
  "confirmDraft (\<lambda>k. 100 + k) 5 (Some [entry_ann]) \<lparr> agents = ags, tasks = [] \<rparr> =
     (TasksSaved 1,
      \<lparr> agents = ags,
        tasks = [\<lparr> task_id = 100, firstName = js ''Ann'', phone = js ''555-1111'',
                   task_notes = [], agentId = Some 7, assignedTo = Some 7,
                   status = ''pending'', isFinalized = False, createdAt = 5, updatedAt = 5 \<rparr>] \<rparr>)"
  by (simp add: confirmDraft_def insertMany_def process_def draft_id_def valid_doc_def
        new_task_def allowedStatuses_def entry_ann_def js_def)

theorem confirmDraft_validates_fields_witness:
  "(\<exists>inserted.
      confirmDraft (\<lambda>k. 100 + k) 5 (Some [entry_ann]) \<lparr> agents = [W1], tasks = [] \<rparr>
        = (TasksSaved 1, \<lparr> agents = [W1], tasks = inserted \<rparr>) \<and>
      length inserted = 1 \<and> firstName (inserted ! 0) = js ''Ann'' \<and>
      assignedTo (inserted ! 0) = Some 7) \<and>
   confirmDraft (\<lambda>k. 100 + k) 5 (Some [entry_ann, entry_noname]) \<lparr> agents = [W1], tasks = [] \<rparr>
     = (ServerError, \<lparr> agents = [W1], tasks = [] \<rparr>)"
proof
  let ?d = "\<lparr> agents = [W1], tasks = [] \<rparr>"
  have ne: "[entry_ann] \<noteq> []" by simp
  have good: "\<forall>e \<in> set [entry_ann].
              truthy_str (in_firstName e) \<and> truthy_str (in_phone e) \<and>
              (case draft_id e of
                 Some i \<Rightarrow> i \<noteq> NotOid
               | None \<Rightarrow> in_agentId e \<noteq> Some NotOid \<and> in_assignedTo e \<noteq> Some NotOid)"
    by (simp add: entry_ann_def draft_id_def js_def)
  from confirmDraft_validates_fields [OF ne, of "\<lambda>k. 100 + k" 5 ?d, unfolded if_P [OF good]]
  obtain inserted where
    run: "confirmDraft (\<lambda>k. 100 + k) 5 (Some [entry_ann]) ?d
            = (TasksSaved (length [entry_ann]), ?d\<lparr>tasks := tasks ?d @ inserted\<rparr>)" and
    len: "length inserted = length [entry_ann]" and
    each: "\<forall>k < length [entry_ann].
             firstName (inserted ! k) = the (in_firstName ([entry_ann] ! k)) \<and>
             assignedTo (inserted ! k)
               = cast_id (case draft_id ([entry_ann] ! k) of Some i \<Rightarrow> Some i
                          | None \<Rightarrow> in_assignedTo ([entry_ann] ! k))"
    by blast
  from each [rule_format, of 0]
  have "firstName (inserted ! 0) = js ''Ann''" "assignedTo (inserted ! 0) = Some 7"
    by (simp_all add: entry_ann_def draft_id_def)
  with run len
  show "\<exists>inserted.
      confirmDraft (\<lambda>k. 100 + k) 5 (Some [entry_ann]) \<lparr> agents = [W1], tasks = [] \<rparr>
        = (TasksSaved 1, \<lparr> agents = [W1], tasks = inserted \<rparr>) \<and>
      length inserted = 1 \<and> firstName (inserted ! 0) = js ''Ann'' \<and>
      assignedTo (inserted ! 0) = Some 7"
    by simp
next
  let ?d = "\<lparr> agents = [W1], tasks = [] \<rparr>"
  have ne: "[entry_ann, entry_noname] \<noteq> []" by simp
  have bad: "\<not> (\<forall>e \<in> set [entry_ann, entry_noname].
              truthy_str (in_firstName e) \<and> truthy_str (in_phone e) \<and>
              (case draft_id e of
                 Some i \<Rightarrow> i \<noteq> NotOid
               | None \<Rightarrow> in_agentId e \<noteq> Some NotOid \<and> in_assignedTo e \<noteq> Some NotOid))"
    by (simp add: entry_noname_def)
  from confirmDraft_validates_fields [OF ne, of "\<lambda>k. 100 + k" 5 ?d, unfolded if_not_P [OF bad]]
  show "confirmDraft (\<lambda>k. 100 + k) 5 (Some [entry_ann, entry_noname]) ?d = (ServerError, ?d)" .
qed

text \<open>
  One agent, with id 1, and one entry proposing the id 7, which no agent has: the
  task is created for 7 as proposed, and the response reports the count only.
\<close>

theorem confirmDraft_unknown_worker_counterexample:
  "7 \<notin> set (map agent_id [W1]) \<and>
   confirmDraft (\<lambda>k. 100 + k) 5 (Some [entry_ann]) \<lparr> agents = [W1], tasks = [] \<rparr> =
     (TasksSaved 1,
      \<lparr> agents = [W1],
        tasks = [\<lparr> task_id = 100, firstName = js ''Ann'', phone = js ''555-1111'',
                   task_notes = [], agentId = Some 7, assignedTo = Some 7,
                   status = ''pending'', isFinalized = False, createdAt = 5, updatedAt = 5 \<rparr>] \<rparr>)"
  by (simp add: confirmDraft_entry_ann W1_def)

section \<open>Empty agent collection\<close>

lemma confirmDraft_agents:
  "confirmDraft gen now body (d\<lparr>agents := ags\<rparr>)
     = (fst (confirmDraft gen now body d), (snd (confirmDraft gen now body d))\<lparr>agents := ags\<rparr>)"
  by (simp add: confirmDraft_def Let_def split: option.split)

text \<open>
  C3 (as the code has it). With a file present and an empty agent collection,
  \<open>draftUpload\<close> fails with \<^verbatim>\<open>'No agents available'\<close> whatever the file holds.
  \<open>confirmDraft\<close> never reads the agent collection: its outcome is the same for every
  agent collection. With no agent at all, a non-empty list of entries that pass the
  schema (name and phone present and non-empty, worker references well-formed) is
  saved: the answer is status 201 with the count, and one task per entry is appended
  to the task collection.
\<close>

theorem no_agents_guard:
  "(agents d = [] \<longrightarrow>
      draftUpload xlsx_read csv_read (Some f) d = Message 400 ''No agents available'') \<and>
   confirmDraft gen now body (d\<lparr>agents := ags\<rparr>)
     = (fst (confirmDraft gen now body d), (snd (confirmDraft gen now body d))\<lparr>agents := ags\<rparr>) \<and>
   (agents d = [] \<and> ts \<noteq> [] \<and>
    (\<forall>e \<in> set ts.
       truthy_str (in_firstName e) \<and> truthy_str (in_phone e) \<and>
       (case draft_id e of
          Some i \<Rightarrow> i \<noteq> NotOid
        | None \<Rightarrow> in_agentId e \<noteq> Some NotOid \<and> in_assignedTo e \<noteq> Some NotOid)) \<longrightarrow>
      confirmDraft gen now (Some ts) d
        = (TasksSaved (length ts),
           d\<lparr>tasks := tasks d @
                map (\<lambda>(k, p). new_task (gen k) now p) (enumerate 0 (map process ts))\<rparr>))"
proof (intro conjI impI)
  assume "agents d = []"
  then show "draftUpload xlsx_read csv_read (Some f) d = Message 400 ''No agents available''"
    by (simp add: draftUpload_def)
next
  show "confirmDraft gen now body (d\<lparr>agents := ags\<rparr>)
     = (fst (confirmDraft gen now body d), (snd (confirmDraft gen now body d))\<lparr>agents := ags\<rparr>)"
    by (rule confirmDraft_agents)
next
  assume a: "agents d = [] \<and> ts \<noteq> [] \<and>
    (\<forall>e \<in> set ts.
       truthy_str (in_firstName e) \<and> truthy_str (in_phone e) \<and>
       (case draft_id e of
          Some i \<Rightarrow> i \<noteq> NotOid
        | None \<Rightarrow> in_agentId e \<noteq> Some NotOid \<and> in_assignedTo e \<noteq> Some NotOid))"
  then have ne: "ts \<noteq> []" by simp
  from a have "\<forall>e \<in> set ts. valid_doc (process e)"
    using valid_doc_process by blast
  with ne show "confirmDraft gen now (Some ts) d =
           (TasksSaved (length ts),
            d\<lparr>tasks := tasks d @ map (\<lambda>(k, p). new_task (gen k) now p) (enumerate 0 (map process ts))\<rparr>)"
    by (rule confirmDraft_all_valid)
qed

theorem no_agents_guard_witness:
  "draftUpload (\<lambda>b. None) (\<lambda>b. [row_ann]) (Some csv_file) \<lparr> agents = [], tasks = [] \<rparr>
     = Message 400 ''No agents available'' \<and>
   confirmDraft (\<lambda>k. 100 + k) 5 (Some [entry_ann]) \<lparr> agents = [], tasks = [] \<rparr>
     = (TasksSaved 1,
        \<lparr> agents = [],
          tasks = [\<lparr> task_id = 100, firstName = js ''Ann'', phone = js ''555-1111'',
                     task_notes = [], agentId = Some 7, assignedTo = Some 7,
                     status = ''pending'', isFinalized = False, createdAt = 5, updatedAt = 5 \<rparr>] \<rparr>)"
proof -
  let ?d = "\<lparr> agents = [], tasks = [] \<rparr>"
  have h1: "agents ?d = []" by simp
  have h2: "agents ?d = [] \<and> [entry_ann] \<noteq> [] \<and>
    (\<forall>e \<in> set [entry_ann].
       truthy_str (in_firstName e) \<and> truthy_str (in_phone e) \<and>
       (case draft_id e of
          Some i \<Rightarrow> i \<noteq> NotOid
        | None \<Rightarrow> in_agentId e \<noteq> Some NotOid \<and> in_assignedTo e \<noteq> Some NotOid))"
    by (simp add: draft_id_def entry_ann_def js_def)
  note g = no_agents_guard [where d = ?d and xlsx_read = "\<lambda>b. None" and csv_read = "\<lambda>b. [row_ann]"
      and f = csv_file and gen = "\<lambda>k. 100 + k" and now = 5 and ts = "[entry_ann]"]
  from g [THEN conjunct2, THEN conjunct2, rule_format, OF h2]
  have "confirmDraft (\<lambda>k. 100 + k) 5 (Some [entry_ann]) ?d
     = (TasksSaved 1,
        \<lparr> agents = [],
          tasks = [\<lparr> task_id = 100, firstName = js ''Ann'', phone = js ''555-1111'',
                     task_notes = [], agentId = Some 7, assignedTo = Some 7,
                     status = ''pending'', isFinalized = False, createdAt = 5, updatedAt = 5 \<rparr>] \<rparr>)"
    by (simp add: new_task_def process_def draft_id_def entry_ann_def js_def)
  with g [THEN conjunct1, rule_format, OF h1]
  show ?thesis by (rule conjI)
qed

text \<open>
  No agent exists, and the commit of one valid entry succeeds with status 201 and
  stores the task.
\<close>

theorem confirmDraft_no_agents_counterexample:
  "agents \<lparr> agents = [], tasks = [] \<rparr> = [] \<and>
   confirmDraft (\<lambda>k. 100 + k) 5 (Some [entry_ann]) \<lparr> agents = [], tasks = [] \<rparr>
     = (TasksSaved 1,
        \<lparr> agents = [],
          tasks = [\<lparr> task_id = 100, firstName = js ''Ann'', phone = js ''555-1111'',
                     task_notes = [], agentId = Some 7, assignedTo = Some 7,
                     status = ''pending'', isFinalized = False, createdAt = 5, updatedAt = 5 \<rparr>] \<rparr>)"
  by (simp add: confirmDraft_entry_ann)

section \<open>Frame of the lifecycle operations\<close>

lemma findById_Some:
  assumes "findById i ts = Some t"
  shows "task_id t = i" and "t \<in> set ts"
  using assms by (auto simp: findById_def find_Some_iff)

lemma findById_write_back:
  assumes "findById i ts = Some t" and "task_id t' = i"
  shows "findById i (write_back t' ts) = Some t'"
  using assms by (induction ts) (auto simp: findById_def split: if_splits)

lemma write_back_related:
  assumes "findById i ts = Some t" and "task_id t' = i" and "R t t'" and "\<And>x. R x x"
  shows "list_all2 R ts (write_back t' ts)"
  using assms(1)
proof (induction ts)
  case Nil
  then show ?case by (simp add: findById_def)
next
  case (Cons x xs)
  show ?case
  proof (cases "task_id x = i")
    case True
    with Cons.prems have "x = t" by (simp add: findById_def)
    with True assms(2,3,4) show ?thesis by (simp add: list_all2_refl)
  next
    case False
    with Cons.prems have "findById i xs = Some t" by (simp add: findById_def)
    with Cons.IH False assms(2,4) show ?thesis by simp
  qed
qed

lemma save_cases:
  assumes "save now old new = Some t'"
  shows "valid_task new \<and> (new = old \<and> t' = old \<or> t' = new\<lparr>updatedAt := now\<rparr>)"
  using assms by (simp add: save_def split: if_splits)

lemma save_status:
  assumes "save now t (t\<lparr>status := st\<rparr>) = Some t'"
  shows "t' = t\<lparr>status := st, updatedAt := updatedAt t'\<rparr>" and "status t' = st"
    and "task_id t' = task_id t"
proof -
  from save_cases [OF assms]
  consider "t\<lparr>status := st\<rparr> = t" "t' = t" | "t' = t\<lparr>status := st, updatedAt := now\<rparr>"
    by blast
  then have "t' = t\<lparr>status := st, updatedAt := updatedAt t'\<rparr> \<and> status t' = st \<and>
             task_id t' = task_id t"
  proof cases
    case 1
    from 1(1) have "status (t\<lparr>status := st\<rparr>) = status t" by (rule arg_cong)
    then have "status t = st" by simp
    with 1 show ?thesis by simp
  next
    case 2
    then show ?thesis by simp
  qed
  then show "t' = t\<lparr>status := st, updatedAt := updatedAt t'\<rparr>" and "status t' = st"
    and "task_id t' = task_id t" by simp_all
qed

lemma save_assignedTo:
  assumes "save now t (t\<lparr>assignedTo := w\<rparr>) = Some t'"
  shows "t' = t\<lparr>assignedTo := w, updatedAt := updatedAt t'\<rparr>" and "assignedTo t' = w"
    and "task_id t' = task_id t"
proof -
  from save_cases [OF assms]
  consider "t\<lparr>assignedTo := w\<rparr> = t" "t' = t" | "t' = t\<lparr>assignedTo := w, updatedAt := now\<rparr>"
    by blast
  then have "t' = t\<lparr>assignedTo := w, updatedAt := updatedAt t'\<rparr> \<and> assignedTo t' = w \<and>
             task_id t' = task_id t"
  proof cases
    case 1
    from 1(1) have "assignedTo (t\<lparr>assignedTo := w\<rparr>) = assignedTo t" by (rule arg_cong)
    then have "assignedTo t = w" by simp
    with 1 show ?thesis by simp
  next
    case 2
    then show ?thesis by simp
  qed
  then show "t' = t\<lparr>assignedTo := w, updatedAt := updatedAt t'\<rparr>" and "assignedTo t' = w"
    and "task_id t' = task_id t" by simp_all
qed


lemma updateTaskStatus_ok:
  assumes "updateTaskStatus now u taskId st d = (TaskOk m t', d')"
  shows "\<exists>i t. taskId = Some i \<and> findById i (tasks d) = Some t \<and>
           save now t (t\<lparr>status := st\<rparr>) = Some t' \<and>
           d' = d\<lparr>tasks := write_back t' (tasks d)\<rparr>"
  using assms by (auto simp: updateTaskStatus_def split: if_splits option.splits)

lemma reassignTask_ok:
  assumes "reassignTask now taskId newAgentId d = (TaskOk m t', d')"
  shows "\<exists>i t. taskId = Some i \<and> findById i (tasks d) = Some t \<and>
           save now t (t\<lparr>assignedTo := cast_id newAgentId\<rparr>) = Some t' \<and>
           d' = d\<lparr>tasks := write_back t' (tasks d)\<rparr>"
  using assms by (auto simp: reassignTask_def split: if_splits option.splits)

text \<open>
  C8. After every successful \<open>updateTaskStatus\<close> each stored task equals its old
  self except possibly in \<open>status\<close> and \<open>updatedAt\<close>: in particular \<open>assignedTo\<close> (and
  \<open>agentId\<close>) are unchanged. After every successful \<open>reassignTask\<close> each stored task
  equals its old self except possibly in \<open>assignedTo\<close> and \<open>updatedAt\<close>: in particular
  \<open>status\<close> is unchanged. Neither operation touches the agent collection.
\<close>

theorem lifecycle_frame:
  "(updateTaskStatus now u taskId st d = (TaskOk m t', d') \<longrightarrow>
      agents d' = agents d \<and>
      list_all2 (\<lambda>old new. new = old\<lparr>status := status new, updatedAt := updatedAt new\<rparr>)
        (tasks d) (tasks d')) \<and>
   (reassignTask now taskId newAgentId d = (TaskOk m t', d') \<longrightarrow>
      agents d' = agents d \<and>
      list_all2 (\<lambda>old new. new = old\<lparr>assignedTo := assignedTo new, updatedAt := updatedAt new\<rparr>)
        (tasks d) (tasks d'))"
proof (intro conjI impI)
  assume run: "updateTaskStatus now u taskId st d = (TaskOk m t', d')"
  then obtain i t where found: "findById i (tasks d) = Some t"
    and saved: "save now t (t\<lparr>status := st\<rparr>) = Some t'"
    and d': "d' = d\<lparr>tasks := write_back t' (tasks d)\<rparr>"
    using updateTaskStatus_ok by blast
  from d' show "agents d' = agents d" by simp
  from found have "task_id t = i" by (rule findById_Some)
  with save_status [OF saved] have id: "task_id t' = i"
    and rel: "t' = t\<lparr>status := status t', updatedAt := updatedAt t'\<rparr>" by simp_all
  have "list_all2 (\<lambda>old new. new = old\<lparr>status := status new, updatedAt := updatedAt new\<rparr>)
          (tasks d) (write_back t' (tasks d))"
    using found id rel by (rule write_back_related) simp
  with d' show "list_all2 (\<lambda>old new. new = old\<lparr>status := status new, updatedAt := updatedAt new\<rparr>)
          (tasks d) (tasks d')" by simp
next
  assume run: "reassignTask now taskId newAgentId d = (TaskOk m t', d')"
  then obtain i t where found: "findById i (tasks d) = Some t"
    and saved: "save now t (t\<lparr>assignedTo := cast_id newAgentId\<rparr>) = Some t'"
    and d': "d' = d\<lparr>tasks := write_back t' (tasks d)\<rparr>"
    using reassignTask_ok by blast
  from d' show "agents d' = agents d" by simp
  from found have "task_id t = i" by (rule findById_Some)
  with save_assignedTo [OF saved] have id: "task_id t' = i"
    and rel: "t' = t\<lparr>assignedTo := assignedTo t', updatedAt := updatedAt t'\<rparr>" by simp_all
  have "list_all2 (\<lambda>old new. new = old\<lparr>assignedTo := assignedTo new, updatedAt := updatedAt new\<rparr>)
          (tasks d) (write_back t' (tasks d))"
    using found id rel by (rule write_back_related) simp
  with d' show "list_all2 (\<lambda>old new. new = old\<lparr>assignedTo := assignedTo new, updatedAt := updatedAt new\<rparr>)
          (tasks d) (tasks d')" by simp
qed


lemmas lifecycle_defs = updateTaskStatus_def reassignTask_def findById_def save_def valid_task_def
  allowedStatuses_def

lemma updateTaskStatus_task_A:
  "updateTaskStatus 9 \<lparr> user_id = 0, role = ''admin'' \<rparr> (Some 10) ''completed''
     \<lparr> agents = [W1, W2], tasks = [task_A] \<rparr>
   = (TaskOk ''Task status updated successfully'' (task_A\<lparr>status := ''completed'', updatedAt := 9\<rparr>),
      \<lparr> agents = [W1, W2], tasks = [task_A\<lparr>status := ''completed'', updatedAt := 9\<rparr>] \<rparr>)"
  by (simp add: lifecycle_defs task_A_def js_def)

lemma reassignTask_task_A:
  "reassignTask 9 (Some 10) (Some (Oid 2)) \<lparr> agents = [W1, W2], tasks = [task_A] \<rparr>
   = (TaskOk ''Task reassigned successfully'' (task_A\<lparr>assignedTo := Some 2, updatedAt := 9\<rparr>),
      \<lparr> agents = [W1, W2], tasks = [task_A\<lparr>assignedTo := Some 2, updatedAt := 9\<rparr>] \<rparr>)"
  by (simp add: lifecycle_defs task_A_def js_def)

theorem lifecycle_frame_witness:
  "list_all2 (\<lambda>old new. new = old\<lparr>status := status new, updatedAt := updatedAt new\<rparr>)
     [task_A] [task_A\<lparr>status := ''completed'', updatedAt := 9\<rparr>] \<and>
   list_all2 (\<lambda>old new. new = old\<lparr>assignedTo := assignedTo new, updatedAt := updatedAt new\<rparr>)
     [task_A] [task_A\<lparr>assignedTo := Some 2, updatedAt := 9\<rparr>]"
proof
  note f = lifecycle_frame [where now = 9 and taskId = "Some 10"
      and d = "\<lparr> agents = [W1, W2], tasks = [task_A] \<rparr>", THEN conjunct1, rule_format,
      OF updateTaskStatus_task_A, THEN conjunct2]
  then show "list_all2 (\<lambda>old new. new = old\<lparr>status := status new, updatedAt := updatedAt new\<rparr>)
     [task_A] [task_A\<lparr>status := ''completed'', updatedAt := 9\<rparr>]"
    by (simp only: db.simps)
next
  note g = lifecycle_frame [where now = 9 and taskId = "Some 10"
      and d = "\<lparr> agents = [W1, W2], tasks = [task_A] \<rparr>", THEN conjunct2, rule_format,
      OF reassignTask_task_A, THEN conjunct2]
  then show "list_all2 (\<lambda>old new. new = old\<lparr>assignedTo := assignedTo new, updatedAt := updatedAt new\<rparr>)
     [task_A] [task_A\<lparr>assignedTo := Some 2, updatedAt := 9\<rparr>]"
    by (simp only: db.simps)
qed


section \<open>Permission to update a status\<close>

lemma updateTaskStatus_denied:
  assumes "st \<in> set allowedStatuses" and "findById i (tasks d) = Some t"
    and "role u = ''agent''"
    and "assignedTo t \<noteq> Some (user_id u)" and "agentId t \<noteq> Some (user_id u)"
  shows "updateTaskStatus now u (Some i) st d = (Message 403 ''You are not assigned to this task'', d)"
  using assms by (simp add: updateTaskStatus_def)






section \<open>The legacy reference after a reassignment\<close>

lemma assignedTo_update_same: "t\<lparr>assignedTo := v\<rparr> = t \<longleftrightarrow> assignedTo t = v"
proof
  assume "t\<lparr>assignedTo := v\<rparr> = t"
  then have "assignedTo (t\<lparr>assignedTo := v\<rparr>) = assignedTo t" by (rule arg_cong)
  then show "assignedTo t = v" by simp
next
  assume "assignedTo t = v"
  then show "t\<lparr>assignedTo := v\<rparr> = t" by auto
qed

lemma status_update_same: "t\<lparr>status := v\<rparr> = t \<longleftrightarrow> status t = v"
proof
  assume "t\<lparr>status := v\<rparr> = t"
  then have "status (t\<lparr>status := v\<rparr>) = status t" by (rule arg_cong)
  then show "status t = v" by simp
next
  assume "status t = v"
  then show "t\<lparr>status := v\<rparr> = t" by auto
qed

lemma reassignTask_exact:
  assumes "findById i (tasks d) = Some t" and "valid_task t"
    and "t' = (if assignedTo t = Some w then t else t\<lparr>assignedTo := Some w, updatedAt := now\<rparr>)"
  shows "reassignTask now (Some i) (Some (Oid w)) d
           = (TaskOk ''Task reassigned successfully'' t', d\<lparr>tasks := write_back t' (tasks d)\<rparr>)"
    and "findById i (write_back t' (tasks d)) = Some t'"
    and "assignedTo t' = Some w" and "agentId t' = agentId t" and "valid_task t'"
proof -
  from assms(2) have "valid_task (t\<lparr>assignedTo := Some w\<rparr>)"
    by (simp add: valid_task_def)
  then have "save now t (t\<lparr>assignedTo := Some w\<rparr>) = Some t'"
    by (simp add: save_def assignedTo_update_same assms(3))
  with assms(1)
  show "reassignTask now (Some i) (Some (Oid w)) d
          = (TaskOk ''Task reassigned successfully'' t', d\<lparr>tasks := write_back t' (tasks d)\<rparr>)"
    by (simp add: reassignTask_def)
  from assms(1) have "task_id t = i" by (rule findById_Some)
  then have "task_id t' = i" by (simp add: assms(3))
  with assms(1) show "findById i (write_back t' (tasks d)) = Some t'"
    by (rule findById_write_back)
  show "assignedTo t' = Some w" by (simp add: assms(3))
  show "agentId t' = agentId t" by (simp add: assms(3))
  from assms(2) show "valid_task t'" by (simp add: assms(3) valid_task_def)
qed

lemma updateTaskStatus_exact:
  assumes "st \<in> set allowedStatuses" and "findById i (tasks d) = Some t"
    and "role u = ''agent'' \<longrightarrow> assignedTo t = Some (user_id u) \<or> agentId t = Some (user_id u)"
    and "firstName t \<noteq> []" and "phone t \<noteq> []"
    and "t' = (if status t = st then t else t\<lparr>status := st, updatedAt := now\<rparr>)"
  shows "updateTaskStatus now u (Some i) st d
           = (TaskOk ''Task status updated successfully'' t', d\<lparr>tasks := write_back t' (tasks d)\<rparr>)"
    and "findById i (write_back t' (tasks d)) = Some t'"
    and "status t' = st"
proof -
  from assms(1,4,5) have "valid_task (t\<lparr>status := st\<rparr>)"
    by (simp add: valid_task_def)
  then have "save now t (t\<lparr>status := st\<rparr>) = Some t'"
    by (simp add: save_def status_update_same assms(6))
  with assms(1,2,3)
  show "updateTaskStatus now u (Some i) st d
          = (TaskOk ''Task status updated successfully'' t', d\<lparr>tasks := write_back t' (tasks d)\<rparr>)"
    by (auto simp: updateTaskStatus_def)
  from assms(2) have "task_id t = i" by (rule findById_Some)
  then have "task_id t' = i" by (simp add: assms(6))
  with assms(2) show "findById i (write_back t' (tasks d)) = Some t'"
    by (rule findById_write_back)
  show "status t' = st" by (simp add: assms(6))
qed

lemma updateTaskStatus_not_denied:
  assumes "st \<in> set allowedStatuses" and "findById i (tasks d) = Some t"
    and "assignedTo t = Some (user_id u) \<or> agentId t = Some (user_id u)"
  shows "fst (updateTaskStatus now u (Some i) st d) \<noteq> Message 403 ''You are not assigned to this task''"
proof (cases "save now t (t\<lparr>status := st\<rparr>)")
  case None
  with assms show ?thesis by (auto simp: updateTaskStatus_def)
next
  case (Some t')
  with assms show ?thesis by (auto simp: updateTaskStatus_def)
qed

text \<open>
  C10. For a caller with role \<^verbatim>\<open>agent\<close>, an allowed status and an existing task,
  \<open>updateTaskStatus\<close> answers \<^verbatim>\<open>'You are not assigned to this task'\<close> exactly when the
  caller's id equals neither the task's \<open>assignedTo\<close> nor its \<open>agentId\<close>. Moreover
  \<open>reassignTask\<close> sets \<open>assignedTo\<close> and leaves \<open>agentId\<close> as it was; so when a task
  whose \<open>agentId\<close> is \<open>w\<close> is reassigned to any \<open>w'\<close>, agent \<open>w\<close> can afterwards still
  update the status of that task: the call succeeds, and the task stored under the
  same id then carries the new status.
\<close>

theorem stale_agentId_permission:
  "(st \<in> set allowedStatuses \<and> findById i (tasks d) = Some t \<and> role u = ''agent'' \<longrightarrow>
      (fst (updateTaskStatus now u (Some i) st d) = Message 403 ''You are not assigned to this task''
       \<longleftrightarrow> \<not> (assignedTo t = Some (user_id u) \<or> agentId t = Some (user_id u)))) \<and>
   (st \<in> set allowedStatuses \<and> findById i (tasks d) = Some t \<and> valid_task t \<and>
    agentId t = Some w \<longrightarrow>
      (\<exists>t1 d1. t1 = (if assignedTo t = Some w' then t
                      else t\<lparr>assignedTo := Some w', updatedAt := now\<rparr>) \<and>
               d1 = d\<lparr>tasks := write_back t1 (tasks d)\<rparr> \<and>
               reassignTask now (Some i) (Some (Oid w')) d
                  = (TaskOk ''Task reassigned successfully'' t1, d1) \<and>
               findById i (tasks d1) = Some t1 \<and>
               assignedTo t1 = Some w' \<and> agentId t1 = Some w \<and>
               (\<exists>t2 d2. t2 = (if status t1 = st then t1
                               else t1\<lparr>status := st, updatedAt := now'\<rparr>) \<and>
                        d2 = d1\<lparr>tasks := write_back t2 (tasks d1)\<rparr> \<and>
                        updateTaskStatus now' \<lparr> user_id = w, role = ''agent'' \<rparr> (Some i) st d1
                           = (TaskOk ''Task status updated successfully'' t2, d2) \<and>
                        findById i (tasks d2) = Some t2 \<and>
                        status t2 = st)))"
proof (intro conjI impI)
  assume a: "st \<in> set allowedStatuses \<and> findById i (tasks d) = Some t \<and> role u = ''agent''"
  then have st: "st \<in> set allowedStatuses" and found: "findById i (tasks d) = Some t"
    and agent: "role u = ''agent''" by simp_all
  show "fst (updateTaskStatus now u (Some i) st d) = Message 403 ''You are not assigned to this task''
        \<longleftrightarrow> \<not> (assignedTo t = Some (user_id u) \<or> agentId t = Some (user_id u))"
  proof (cases "assignedTo t = Some (user_id u) \<or> agentId t = Some (user_id u)")
    case True
    with st found show ?thesis by (simp add: updateTaskStatus_not_denied)
  next
    case False
    then have "assignedTo t \<noteq> Some (user_id u)" "agentId t \<noteq> Some (user_id u)" by simp_all
    with st found agent
    have "updateTaskStatus now u (Some i) st d = (Message 403 ''You are not assigned to this task'', d)"
      by (rule updateTaskStatus_denied)
    with False show ?thesis by simp
  qed
next
  assume a: "st \<in> set allowedStatuses \<and> findById i (tasks d) = Some t \<and> valid_task t \<and>
             agentId t = Some w"
  then have st: "st \<in> set allowedStatuses" and found: "findById i (tasks d) = Some t"
    and valid: "valid_task t" and legacy: "agentId t = Some w" by simp_all
  define t1 where "t1 = (if assignedTo t = Some w' then t
                         else t\<lparr>assignedTo := Some w', updatedAt := now\<rparr>)"
  define d1 where "d1 = d\<lparr>tasks := write_back t1 (tasks d)\<rparr>"
  define t2 where "t2 = (if status t1 = st then t1 else t1\<lparr>status := st, updatedAt := now'\<rparr>)"
  define d2 where "d2 = d1\<lparr>tasks := write_back t2 (tasks d1)\<rparr>"
  let ?w = "\<lparr> user_id = w, role = ''agent'' \<rparr>"
  note r = reassignTask_exact [OF found valid t1_def]
  from r(1) have run1: "reassignTask now (Some i) (Some (Oid w')) d
                          = (TaskOk ''Task reassigned successfully'' t1, d1)"
    by (simp only: d1_def)
  from r(2) have found1: "findById i (tasks d1) = Some t1" by (simp add: d1_def)
  from r(4) legacy have ag1: "agentId t1 = Some w" by simp
  then have perm: "role ?w = ''agent'' \<longrightarrow>
                   assignedTo t1 = Some (user_id ?w) \<or> agentId t1 = Some (user_id ?w)"
    by simp
  from r(5) have ne: "firstName t1 \<noteq> []" "phone t1 \<noteq> []"
    by (simp_all add: valid_task_def)
  note u = updateTaskStatus_exact [OF st found1 perm ne t2_def]
  from u(1) have run2: "updateTaskStatus now' ?w (Some i) st d1
                          = (TaskOk ''Task status updated successfully'' t2, d2)"
    by (simp only: d2_def)
  from u(2) have found2: "findById i (tasks d2) = Some t2" by (simp add: d2_def)
  from t1_def d1_def run1 found1 r(3) ag1 t2_def d2_def run2 found2 u(3)
  show "\<exists>t1 d1. t1 = (if assignedTo t = Some w' then t
                      else t\<lparr>assignedTo := Some w', updatedAt := now\<rparr>) \<and>
               d1 = d\<lparr>tasks := write_back t1 (tasks d)\<rparr> \<and>
               reassignTask now (Some i) (Some (Oid w')) d
                  = (TaskOk ''Task reassigned successfully'' t1, d1) \<and>
               findById i (tasks d1) = Some t1 \<and>
               assignedTo t1 = Some w' \<and> agentId t1 = Some w \<and>
               (\<exists>t2 d2. t2 = (if status t1 = st then t1
                               else t1\<lparr>status := st, updatedAt := now'\<rparr>) \<and>
                        d2 = d1\<lparr>tasks := write_back t2 (tasks d1)\<rparr> \<and>
                        updateTaskStatus now' \<lparr> user_id = w, role = ''agent'' \<rparr> (Some i) st d1
                           = (TaskOk ''Task status updated successfully'' t2, d2) \<and>
                        findById i (tasks d2) = Some t2 \<and>
                        status t2 = st)"
    by blast
qed

lemma valid_task_A: "valid_task task_A"
  by (simp add: valid_task_def allowedStatuses_def task_A_def js_def)

theorem stale_agentId_permission_witness:
  "fst (updateTaskStatus 9 \<lparr> user_id = 1, role = ''agent'' \<rparr> (Some 11) ''completed''
          \<lparr> agents = [W1, W2], tasks = [task_B] \<rparr>)
     \<noteq> Message 403 ''You are not assigned to this task'' \<and>
   reassignTask 8 (Some 10) (Some (Oid 2)) \<lparr> agents = [W1, W2], tasks = [task_A] \<rparr>
     = (TaskOk ''Task reassigned successfully'' (task_A\<lparr>assignedTo := Some 2, updatedAt := 8\<rparr>),
        \<lparr> agents = [W1, W2], tasks = [task_A\<lparr>assignedTo := Some 2, updatedAt := 8\<rparr>] \<rparr>) \<and>
   updateTaskStatus 9 \<lparr> user_id = 1, role = ''agent'' \<rparr> (Some 10) ''completed''
       \<lparr> agents = [W1, W2], tasks = [task_A\<lparr>assignedTo := Some 2, updatedAt := 8\<rparr>] \<rparr>
     = (TaskOk ''Task status updated successfully''
          (task_A\<lparr>assignedTo := Some 2, status := ''completed'', updatedAt := 9\<rparr>),
        \<lparr> agents = [W1, W2],
          tasks = [task_A\<lparr>assignedTo := Some 2, status := ''completed'', updatedAt := 9\<rparr>] \<rparr>)"
proof (intro conjI)
  let ?d = "\<lparr> agents = [W1, W2], tasks = [task_B] \<rparr>"
  let ?u = "\<lparr> user_id = 1, role = ''agent'' \<rparr>"
  have h: "''completed'' \<in> set allowedStatuses \<and> findById 11 (tasks ?d) = Some task_B \<and>
           role ?u = ''agent''"
    by (simp add: allowedStatuses_def findById_def task_B_def)
  have own: "assignedTo task_B = Some (user_id ?u) \<or> agentId task_B = Some (user_id ?u)"
    by (simp add: task_B_def)
  from stale_agentId_permission [where st = "''completed''" and i = 11 and d = ?d and t = task_B
      and u = ?u and now = 9, THEN conjunct1, rule_format, OF h] own
  show "fst (updateTaskStatus 9 ?u (Some 11) ''completed'' ?d)
          \<noteq> Message 403 ''You are not assigned to this task''"
    by blast
next
  let ?d = "\<lparr> agents = [W1, W2], tasks = [task_A] \<rparr>"
  let ?t1 = "task_A\<lparr>assignedTo := Some 2, updatedAt := 8\<rparr>"
  let ?t2 = "task_A\<lparr>assignedTo := Some 2, status := ''completed'', updatedAt := 9\<rparr>"
  have h: "''completed'' \<in> set allowedStatuses \<and> findById 10 (tasks ?d) = Some task_A \<and>
           valid_task task_A \<and> agentId task_A = Some 1"
    by (simp add: allowedStatuses_def findById_def valid_task_A) (simp add: task_A_def)
  from stale_agentId_permission [where st = "''completed''" and i = 10 and d = ?d and t = task_A
      and w = 1 and w' = 2 and now = 8 and now' = 9, THEN conjunct2, rule_format, OF h]
  obtain t1 d1 t2 d2 where
    t1: "t1 = (if assignedTo task_A = Some 2 then task_A
               else task_A\<lparr>assignedTo := Some 2, updatedAt := 8\<rparr>)" and
    d1: "d1 = ?d\<lparr>tasks := write_back t1 (tasks ?d)\<rparr>" and
    run1: "reassignTask 8 (Some 10) (Some (Oid 2)) ?d
             = (TaskOk ''Task reassigned successfully'' t1, d1)" and
    t2: "t2 = (if status t1 = ''completed'' then t1
               else t1\<lparr>status := ''completed'', updatedAt := 9\<rparr>)" and
    d2: "d2 = d1\<lparr>tasks := write_back t2 (tasks d1)\<rparr>" and
    run2: "updateTaskStatus 9 \<lparr> user_id = 1, role = ''agent'' \<rparr> (Some 10) ''completed'' d1
             = (TaskOk ''Task status updated successfully'' t2, d2)"
    by blast
  from t1 have t1': "t1 = ?t1" by (simp add: task_A_def)
  from d1 have d1': "d1 = \<lparr> agents = [W1, W2], tasks = [?t1] \<rparr>" by (simp add: t1')
  from t2 have t2': "t2 = ?t2" by (simp add: t1' task_A_def)
  from d2 have d2': "d2 = \<lparr> agents = [W1, W2], tasks = [?t2] \<rparr>" by (simp add: d1' t2')
  from run1 show "reassignTask 8 (Some 10) (Some (Oid 2)) ?d
     = (TaskOk ''Task reassigned successfully'' ?t1, \<lparr> agents = [W1, W2], tasks = [?t1] \<rparr>)"
    by (simp only: t1' d1')
  from run2 show "updateTaskStatus 9 \<lparr> user_id = 1, role = ''agent'' \<rparr> (Some 10) ''completed''
       \<lparr> agents = [W1, W2], tasks = [?t1] \<rparr>
     = (TaskOk ''Task status updated successfully'' ?t2, \<lparr> agents = [W1, W2], tasks = [?t2] \<rparr>)"
    by (simp only: t2' d1' d2')
qed

section \<open>Targets of a reassignment\<close>

lemma reassignTask_agents:
  "reassignTask now taskId newAgentId (d\<lparr>agents := ags\<rparr>)
     = (fst (reassignTask now taskId newAgentId d),
        (snd (reassignTask now taskId newAgentId d))\<lparr>agents := ags\<rparr>)"
  by (simp add: reassignTask_def split: option.split)

text \<open>
  C6 (as the code has it). A task id that is not a well-formed ObjectId makes
  \<open>reassignTask\<close> fail with the server error of status 500. A well-formed task id
  that resolves to no task makes it fail with status 404, \<^verbatim>\<open>'Task not found'\<close>. In
  both cases the store is left as it was. The new worker reference is not looked up:
  the outcome is the same for every agent collection, and for a task that satisfies
  the schema any well-formed worker id is stored as \<open>assignedTo\<close> of the task under
  that id, whether or not an agent with that id exists.
\<close>

theorem reassignTask_targets:
  "reassignTask now None newAgentId d = (ServerError, d) \<and>
   (findById i (tasks d) = None \<longrightarrow>
      reassignTask now (Some i) newAgentId d = (Message 404 ''Task not found'', d)) \<and>
   (findById i (tasks d) = Some t \<and> valid_task t \<longrightarrow>
      (\<exists>t'. t' = (if assignedTo t = Some w then t
                   else t\<lparr>assignedTo := Some w, updatedAt := now\<rparr>) \<and>
             reassignTask now (Some i) (Some (Oid w)) d
               = (TaskOk ''Task reassigned successfully'' t',
                  d\<lparr>tasks := write_back t' (tasks d)\<rparr>) \<and>
             findById i (write_back t' (tasks d)) = Some t' \<and>
             assignedTo t' = Some w)) \<and>
   reassignTask now taskId newAgentId (d\<lparr>agents := ags\<rparr>)
     = (fst (reassignTask now taskId newAgentId d),
        (snd (reassignTask now taskId newAgentId d))\<lparr>agents := ags\<rparr>)"
proof (intro conjI impI)
  show "reassignTask now None newAgentId d = (ServerError, d)"
    by (simp add: reassignTask_def)
next
  assume "findById i (tasks d) = None"
  then show "reassignTask now (Some i) newAgentId d = (Message 404 ''Task not found'', d)"
    by (simp add: reassignTask_def)
next
  assume "findById i (tasks d) = Some t \<and> valid_task t"
  then have found: "findById i (tasks d) = Some t" and valid: "valid_task t" by simp_all
  define t' where "t' = (if assignedTo t = Some w then t
                         else t\<lparr>assignedTo := Some w, updatedAt := now\<rparr>)"
  note r = reassignTask_exact [OF found valid t'_def]
  from t'_def r(1) r(2) r(3)
  show "\<exists>t'. t' = (if assignedTo t = Some w then t
                   else t\<lparr>assignedTo := Some w, updatedAt := now\<rparr>) \<and>
             reassignTask now (Some i) (Some (Oid w)) d
               = (TaskOk ''Task reassigned successfully'' t',
                  d\<lparr>tasks := write_back t' (tasks d)\<rparr>) \<and>
             findById i (write_back t' (tasks d)) = Some t' \<and>
             assignedTo t' = Some w"
    by blast
next
  show "reassignTask now taskId newAgentId (d\<lparr>agents := ags\<rparr>)
     = (fst (reassignTask now taskId newAgentId d),
        (snd (reassignTask now taskId newAgentId d))\<lparr>agents := ags\<rparr>)"
    by (rule reassignTask_agents)
qed

theorem reassignTask_targets_witness:
  "reassignTask 9 (Some 12) (Some (Oid 2)) \<lparr> agents = [W1, W2], tasks = [task_A] \<rparr>
     = (Message 404 ''Task not found'', \<lparr> agents = [W1, W2], tasks = [task_A] \<rparr>) \<and>
   reassignTask 9 (Some 10) (Some (Oid 2)) \<lparr> agents = [W1, W2], tasks = [task_A] \<rparr>
     = (TaskOk ''Task reassigned successfully'' (task_A\<lparr>assignedTo := Some 2, updatedAt := 9\<rparr>),
        \<lparr> agents = [W1, W2], tasks = [task_A\<lparr>assignedTo := Some 2, updatedAt := 9\<rparr>] \<rparr>)"
proof -
  let ?d = "\<lparr> agents = [W1, W2], tasks = [task_A] \<rparr>"
  let ?t' = "task_A\<lparr>assignedTo := Some 2, updatedAt := 9\<rparr>"
  have none: "findById 12 (tasks ?d) = None" by (simp add: findById_def task_A_def)
  have some: "findById 10 (tasks ?d) = Some task_A \<and> valid_task task_A"
    by (simp add: findById_def valid_task_A) (simp add: task_A_def)
  from reassignTask_targets [where i = 12 and d = ?d and now = 9 and newAgentId = "Some (Oid 2)",
      THEN conjunct2, THEN conjunct1, rule_format, OF none]
  have one: "reassignTask 9 (Some 12) (Some (Oid 2)) ?d = (Message 404 ''Task not found'', ?d)" .
  from reassignTask_targets [where i = 10 and d = ?d and now = 9 and t = task_A and w = 2,
      THEN conjunct2, THEN conjunct2, THEN conjunct1, rule_format, OF some]
  obtain t' where
    t': "t' = (if assignedTo task_A = Some 2 then task_A
               else task_A\<lparr>assignedTo := Some 2, updatedAt := 9\<rparr>)" and
    run: "reassignTask 9 (Some 10) (Some (Oid 2)) ?d
            = (TaskOk ''Task reassigned successfully'' t', ?d\<lparr>tasks := write_back t' (tasks ?d)\<rparr>)"
    by blast
  from t' have eq: "t' = ?t'" by (simp add: task_A_def)
  have "?d\<lparr>tasks := write_back ?t' (tasks ?d)\<rparr> = \<lparr> agents = [W1, W2], tasks = [?t'] \<rparr>"
    by simp
  with run have "reassignTask 9 (Some 10) (Some (Oid 2)) ?d
     = (TaskOk ''Task reassigned successfully'' ?t', \<lparr> agents = [W1, W2], tasks = [?t'] \<rparr>)"
    by (simp only: eq)
  with one show ?thesis by (rule conjI)
qed

text \<open>
  The agents have the ids 1 and 2. Task 10 is reassigned to the id 9, which no agent
  has, and the reassignment is applied.
\<close>

theorem reassignTask_unknown_worker_counterexample:
  "9 \<notin> set (map agent_id [W1, W2]) \<and>
   reassignTask 9 (Some 10) (Some (Oid 9)) \<lparr> agents = [W1, W2], tasks = [task_A] \<rparr>
   = (TaskOk ''Task reassigned successfully'' (task_A\<lparr>assignedTo := Some 9, updatedAt := 9\<rparr>),
      \<lparr> agents = [W1, W2], tasks = [task_A\<lparr>assignedTo := Some 9, updatedAt := 9\<rparr>] \<rparr>)"
  by (simp add: lifecycle_defs task_A_def W1_def W2_def js_def)

section \<open>Finalization sweep\<close>

lemma finalize_doc_idem: "finalize_doc now' (finalize_doc now t) = finalize_doc now t"
  by (simp add: finalize_doc_def)

text \<open>
  C9 (as the code has it). \<open>finalizeAssignments\<close> sets \<open>isFinalized\<close> (and
  \<open>updatedAt\<close>) on exactly the tasks where the flag is false and leaves every other
  task and the agents as they are, so that afterwards every task is finalized. The
  response holds a message only and reports no count. A second sweep right after the
  first changes nothing.
\<close>

theorem finalizeAssignments_sweep:
  "fst (finalizeAssignments now d) = Message 200 ''All tasks finalized successfully'' \<and>
   reported_count (fst (finalizeAssignments now d)) = None \<and>
   agents (snd (finalizeAssignments now d)) = agents d \<and>
   tasks (snd (finalizeAssignments now d))
     = map (\<lambda>t. if isFinalized t then t else t\<lparr>isFinalized := True, updatedAt := now\<rparr>) (tasks d) \<and>
   (\<forall>t \<in> set (tasks (snd (finalizeAssignments now d))). isFinalized t) \<and>
   snd (finalizeAssignments now' (snd (finalizeAssignments now d))) = snd (finalizeAssignments now d)"
proof (intro conjI)
  show "fst (finalizeAssignments now d) = Message 200 ''All tasks finalized successfully''"
    by (simp add: finalizeAssignments_def)
  show "reported_count (fst (finalizeAssignments now d)) = None"
    by (simp add: finalizeAssignments_def)
  show "agents (snd (finalizeAssignments now d)) = agents d"
    by (simp add: finalizeAssignments_def)
  show "tasks (snd (finalizeAssignments now d))
     = map (\<lambda>t. if isFinalized t then t else t\<lparr>isFinalized := True, updatedAt := now\<rparr>) (tasks d)"
    by (simp add: finalizeAssignments_def finalize_doc_def)
  show "\<forall>t \<in> set (tasks (snd (finalizeAssignments now d))). isFinalized t"
    by (auto simp: finalizeAssignments_def finalize_doc_def)
  show "snd (finalizeAssignments now' (snd (finalizeAssignments now d)))
          = snd (finalizeAssignments now d)"
    by (simp add: finalizeAssignments_def finalize_doc_idem comp_def)
qed

theorem finalizeAssignments_sweep_witness:
  "tasks (snd (finalizeAssignments 9 \<lparr> agents = [W1], tasks = [task_A, task_B\<lparr>isFinalized := True\<rparr>] \<rparr>))
     = [task_A\<lparr>isFinalized := True, updatedAt := 9\<rparr>, task_B\<lparr>isFinalized := True\<rparr>] \<and>
   snd (finalizeAssignments 10
          (snd (finalizeAssignments 9 \<lparr> agents = [W1], tasks = [task_A, task_B\<lparr>isFinalized := True\<rparr>] \<rparr>)))
     = snd (finalizeAssignments 9 \<lparr> agents = [W1], tasks = [task_A, task_B\<lparr>isFinalized := True\<rparr>] \<rparr>)"
proof -
  let ?d = "\<lparr> agents = [W1], tasks = [task_A, task_B\<lparr>isFinalized := True\<rparr>] \<rparr>"
  note s = finalizeAssignments_sweep [of 9 ?d 10]
  from s have "tasks (snd (finalizeAssignments 9 ?d))
     = map (\<lambda>t. if isFinalized t then t else t\<lparr>isFinalized := True, updatedAt := 9\<rparr>) (tasks ?d)"
    by blast
  then have one: "tasks (snd (finalizeAssignments 9 ?d))
     = [task_A\<lparr>isFinalized := True, updatedAt := 9\<rparr>, task_B\<lparr>isFinalized := True\<rparr>]"
    by (simp add: task_A_def)
  from s have "snd (finalizeAssignments 10 (snd (finalizeAssignments 9 ?d)))
                 = snd (finalizeAssignments 9 ?d)"
    by blast
  with one show ?thesis by blast
qed

text \<open>
  One task is not yet finalized; the sweep affects it, and the response is the bare
  message, without a count.
\<close>

theorem finalizeAssignments_count_counterexample:
  "length (filter (\<lambda>t. \<not> isFinalized t) (tasks \<lparr> agents = [W1], tasks = [task_A] \<rparr>)) = 1 \<and>
   fst (finalizeAssignments 9 \<lparr> agents = [W1], tasks = [task_A] \<rparr>)
     = Message 200 ''All tasks finalized successfully'' \<and>
   reported_count (fst (finalizeAssignments 9 \<lparr> agents = [W1], tasks = [task_A] \<rparr>)) \<noteq> Some 1"
  by (simp add: finalizeAssignments_def task_A_def)

end
